theory Spec2Isabelle
  imports Complex_Main "HOL-Library.Multiset"
begin

section \<open>The scraper: \<open>Scraper/src/bvl_fetcher.py\<close>\<close>

subsection \<open>Values, exceptions and data frames\<close>

text \<open>
  What \<open>response.json()\<close> returns is a JSON value. A table cell holds such a value too;
  \<open>JNull\<close> stands for both \<open>None\<close> and pandas' \<open>NaN\<close>, which \<open>fillna\<close>,
  \<open>drop_duplicates\<close> and \<open>pd.notna\<close> treat alike. Numbers are rationals: the code only
  passes them on and compares them.
\<close>

datatype json =
    JNull
  | JBool bool
  | JNum rat
  | JStr string
  | JArr "json list"
  | JObj "(string \<times> json) list"

text \<open>The exceptions the modelled code can raise or catch.\<close>

datatype exn =
    AttributeError
  | TypeError
  | KeyError
  | ParserError
  | ValueError
  | FileNotFoundError
  | RequestException
  | RetryError
  | HTTPException nat string

text \<open>
  A row is a dictionary from column names to cells, the first binding of a name counting
  (\<open>map_of\<close>); a data frame is its column index and its rows in index order. A column a row
  has no binding for reads as \<open>NaN\<close>, as in \<open>pd.DataFrame(list_of_dicts)\<close> and
  \<open>pd.concat\<close>.
\<close>

type_synonym row = "(string \<times> json) list"

record dataframe =
  columns :: "string list"
  rows :: "row list"

definition cell :: "row \<Rightarrow> string \<Rightarrow> json" where
  "cell r c = (case map_of r c of None \<Rightarrow> JNull | Some v \<Rightarrow> v)"

definition put_cell :: "string \<Rightarrow> json \<Rightarrow> row \<Rightarrow> row" where
  "put_cell c v r = (c, v) # filter (\<lambda>kv. fst kv \<noteq> c) r"

text \<open>\<open>Series.unique()\<close> and the union of an index: the values in order of first appearance.\<close>

definition unique :: "'a list \<Rightarrow> 'a list" where
  "unique xs = rev (remdups (rev xs))"

text \<open>\<open>pd.DataFrame(records)\<close>: the columns are the keys that occur in the records.\<close>

definition DataFrame :: "row list \<Rightarrow> dataframe" where
  "DataFrame recs = \<lparr>columns = unique (concat (map (map fst) recs)), rows = recs\<rparr>"

text \<open>\<open>df[col] = df[col].fillna(0)\<close> on one column.\<close>

definition fillna0 :: "string \<Rightarrow> row \<Rightarrow> row" where
  "fillna0 c r = (if cell r c = JNull then put_cell c (JNum 0) r else r)"

text \<open>\<open>pd.concat([a, b])\<close>: the rows of \<open>a\<close>, then those of \<open>b\<close>, over the union of the columns.\<close>

definition concat_frames :: "dataframe \<Rightarrow> dataframe \<Rightarrow> dataframe" where
  "concat_frames a b =
     \<lparr>columns = columns a @ filter (\<lambda>c. c \<notin> set (columns a)) (columns b),
      rows = rows a @ rows b\<rparr>"

text \<open>
  \<open>drop_duplicates(subset=..., keep='last')\<close>: a row stays exactly when no later row has
  the same key; the survivors keep their order.
\<close>

fun drop_duplicates_last :: "('a \<Rightarrow> 'k) \<Rightarrow> 'a list \<Rightarrow> 'a list" where
  "drop_duplicates_last key [] = []"
| "drop_duplicates_last key (x # xs) =
     (if key x \<in> key ` set xs then drop_duplicates_last key xs
      else x # drop_duplicates_last key xs)"

definition row_key :: "row \<Rightarrow> json \<times> json" where
  "row_key r = (cell r ''timestamp'', cell r ''companyName'')"

subsection \<open>\<open>save_data\<close>\<close>

text \<open>
  The store is the CSV file at \<open>output_dir/csv_filename\<close>: absent, present but not
  readable by \<open>pd.read_csv\<close>, or a table. Writing a table and reading it back is taken
  to give the same table. \<open>to_csv\<close> either succeeds or raises, and then leaves behind
  whatever the failed write left.
\<close>

datatype store_file = NoFile | Unreadable | Csv dataframe

datatype disk = WriteOk | WriteFails store_file

text \<open>The body of the \<open>try\<close> up to \<open>to_csv\<close>: the frame to be written, or the exception.\<close>

definition combined_frame :: "store_file \<Rightarrow> dataframe \<Rightarrow> exn + dataframe" where
  "combined_frame st df =
     (case st of
        Csv existing_data \<Rightarrow>
          (let combined = concat_frames existing_data df in
           if ''timestamp'' \<in> set (columns combined) \<and> ''companyName'' \<in> set (columns combined)
           then Inr (combined\<lparr>rows := drop_duplicates_last row_key (rows combined)\<rparr>)
           else Inl KeyError)
      | Unreadable \<Rightarrow> Inl ParserError
      | NoFile \<Rightarrow> Inr df)"

text \<open>\<open>save_data\<close> returns its success flag; the second component is the store afterwards.\<close>

definition save_data :: "disk \<Rightarrow> store_file \<Rightarrow> dataframe \<Rightarrow> bool \<times> store_file" where
  "save_data d st df =
     (case combined_frame st df of
        Inl e \<Rightarrow> (False, st)
      | Inr combined \<Rightarrow>
          (case d of
             WriteOk \<Rightarrow> (True, Csv combined)
           | WriteFails left \<Rightarrow> (False, left)))"

subsection \<open>\<open>process_data\<close>\<close>

text \<open>\<open>company.get("companyName")\<close>: only a dictionary has \<open>get\<close>.\<close>

definition company_name :: "json \<Rightarrow> exn + json" where
  "company_name company =
     (case company of
        JObj kv \<Rightarrow> Inr (case map_of kv ''companyName'' of None \<Rightarrow> JNull | Some v \<Rightarrow> v)
      | _ \<Rightarrow> Inl AttributeError)"

text \<open>
  \<open>v in self.target_companies\<close>, a set of strings: a list or a dictionary cannot be
  hashed, any other value that is not a string is simply not a member.
\<close>

definition in_targets :: "string list \<Rightarrow> json \<Rightarrow> exn + bool" where
  "in_targets targets v =
     (case v of
        JStr s \<Rightarrow> Inr (s \<in> set targets)
      | JArr _ \<Rightarrow> Inl TypeError
      | JObj _ \<Rightarrow> Inl TypeError
      | _ \<Rightarrow> Inr False)"

text \<open>The list comprehension; it stops at the first element that raises.\<close>

fun filter_companies :: "string list \<Rightarrow> json list \<Rightarrow> exn + json list" where
  "filter_companies targets [] = Inr []"
| "filter_companies targets (company # rest) =
     (case company_name company of
        Inl e \<Rightarrow> Inl e
      | Inr v \<Rightarrow>
          (case in_targets targets v of
             Inl e \<Rightarrow> Inl e
           | Inr keep \<Rightarrow>
               (case filter_companies targets rest of
                  Inl e \<Rightarrow> Inl e
                | Inr kept \<Rightarrow> Inr (if keep then company # kept else kept))))"

definition record_of :: "json \<Rightarrow> row" where
  "record_of j = (case j of JObj kv \<Rightarrow> kv | _ \<Rightarrow> [])"

text \<open>\<open>df['timestamp'] = now\<close>: one value for every row of the batch.\<close>

definition stamp :: "string \<Rightarrow> dataframe \<Rightarrow> dataframe" where
  "stamp now df =
     \<lparr>columns = columns df @ filter (\<lambda>c. c \<notin> set (columns df)) [''timestamp''],
      rows = map (put_cell ''timestamp'' (JStr now)) (rows df)\<rparr>"

text \<open>
  The body of the \<open>try\<close>. Selecting \<open>df[["buy", "sell"]]\<close> raises \<open>KeyError\<close> unless
  both are columns of the frame, that is unless each occurs as a key of some retained
  record. \<open>now\<close> is \<open>datetime.now().isoformat()\<close>.
\<close>

definition process_data_try :: "string list \<Rightarrow> string \<Rightarrow> json \<Rightarrow> exn + dataframe option" where
  "process_data_try targets now data =
     (case data of
        JObj kv \<Rightarrow>
          (let companies_list = (case map_of kv ''content'' of None \<Rightarrow> JArr [] | Some v \<Rightarrow> v) in
           case companies_list of
             JArr cs \<Rightarrow>
               (case filter_companies targets cs of
                  Inl e \<Rightarrow> Inl e
                | Inr filtered_companies \<Rightarrow>
                    if filtered_companies = [] then Inr None
                    else
                      let df = DataFrame (map record_of filtered_companies) in
                      if ''buy'' \<in> set (columns df) \<and> ''sell'' \<in> set (columns df)
                      then Inr (Some (stamp now
                             (df\<lparr>rows := map (fillna0 ''sell'' \<circ> fillna0 ''buy'') (rows df)\<rparr>)))
                      else Inl KeyError)
           | _ \<Rightarrow> Inr None)
      | _ \<Rightarrow> Inl AttributeError)"

text \<open>\<open>except Exception\<close>: every exception becomes the result \<open>None\<close>.\<close>

definition process_data :: "string list \<Rightarrow> string \<Rightarrow> json \<Rightarrow> dataframe option" where
  "process_data targets now data =
     (case process_data_try targets now data of Inl e \<Rightarrow> None | Inr r \<Rightarrow> r)"

subsection \<open>\<open>fetch_data\<close> and its retry decorator\<close>

text \<open>
  The world the scraper acts on: the store file, the number of requests sent so far and
  the durations slept so far. The environment answers the \<open>n\<close>-th request, tells the
  time stamped in iteration \<open>i\<close> and decides whether the write of iteration \<open>i\<close> succeeds.
  Log output is not modelled.
\<close>

datatype http_outcome = NoResponse | Response nat "json option"

record world =
  store :: store_file
  requests_made :: nat
  slept :: "nat list"

record environment =
  upstream :: "nat \<Rightarrow> http_outcome"
  clock :: "nat \<Rightarrow> string"
  disk_at :: "nat \<Rightarrow> disk"

text \<open>
  The body of the \<open>try\<close>: \<open>requests.post\<close> raises when no response arrives in 30 s,
  \<open>raise_for_status\<close> raises on a 4xx or 5xx status, \<open>response.json()\<close> raises on a
  body that is not JSON (\<open>None\<close> here).
\<close>

definition fetch_data_try :: "environment \<Rightarrow> world \<Rightarrow> (exn + json) \<times> world" where
  "fetch_data_try e w =
     (let w' = w\<lparr>requests_made := Suc (requests_made w)\<rparr> in
      case upstream e (requests_made w) of
        NoResponse \<Rightarrow> (Inl RequestException, w')
      | Response status body \<Rightarrow>
          if 400 \<le> status \<and> status < 600 then (Inl RequestException, w')
          else (case body of None \<Rightarrow> (Inl ValueError, w') | Some j \<Rightarrow> (Inr j, w')))"

text \<open>The decorated function: \<open>except Exception\<close> returns \<open>None\<close> (\<open>JNull\<close>).\<close>

definition fetch_data_body :: "environment \<Rightarrow> world \<Rightarrow> (exn + json) \<times> world" where
  "fetch_data_body e w =
     (case fetch_data_try e w of
        (Inl ex, w') \<Rightarrow> (Inr JNull, w')
      | (Inr j, w') \<Rightarrow> (Inr j, w'))"

text \<open>
  \<open>@retry(stop=stop_after_attempt(n), wait=...)\<close> of the tenacity library: the function is
  called again only after it raised; a returned value, whatever it is, ends the loop.
  After the \<open>n\<close>-th attempt raised, \<open>RetryError\<close> is raised. Between attempts the
  decorator sleeps \<open>wait attempt\<close> seconds.
\<close>

function retry_call ::
  "nat \<Rightarrow> (nat \<Rightarrow> nat) \<Rightarrow> (world \<Rightarrow> (exn + 'a) \<times> world) \<Rightarrow> nat \<Rightarrow> world \<Rightarrow> (exn + 'a) \<times> world" where
  "retry_call stop wait f attempt w =
     (case f w of
        (Inr v, w') \<Rightarrow> (Inr v, w')
      | (Inl ex, w') \<Rightarrow>
          (if stop \<le> attempt then (Inl RetryError, w')
           else retry_call stop wait f (Suc attempt) (w'\<lparr>slept := slept w' @ [wait attempt]\<rparr>)))"
  by pat_completeness auto
termination
  by (relation "measure (\<lambda>(stop, wait, f, attempt, w). stop - attempt)") auto

definition wait_exponential :: "nat \<Rightarrow> nat \<Rightarrow> nat" where
  "wait_exponential multiplier attempt = multiplier * 2 ^ (attempt - 1)"

definition fetch_data :: "environment \<Rightarrow> world \<Rightarrow> (exn + json) \<times> world" where
  "fetch_data e w = retry_call 3 (wait_exponential 1) (fetch_data_body e) 1 w"

subsection \<open>\<open>run\<close>\<close>

record config =
  target_companies :: "string list"
  iterations :: nat
  wait_time :: nat

text \<open>Python's truth value of a JSON value, as \<open>if not data\<close> tests it.\<close>

fun truthy :: "json \<Rightarrow> bool" where
  "truthy JNull = False"
| "truthy (JBool b) = b"
| "truthy (JNum x) = (x \<noteq> 0)"
| "truthy (JStr s) = (s \<noteq> [])"
| "truthy (JArr xs) = (xs \<noteq> [])"
| "truthy (JObj kv) = (kv \<noteq> [])"

text \<open>
  One pass through the body of the \<open>for\<close> loop. \<open>continue\<close> skips the rest of the body,
  the wait included. An exception that leaves \<open>fetch_data\<close> is not caught in \<open>run\<close>.
\<close>

definition iteration :: "environment \<Rightarrow> config \<Rightarrow> nat \<Rightarrow> world \<Rightarrow> exn + world" where
  "iteration e c i w =
     (case fetch_data e w of
        (Inl ex, w1) \<Rightarrow> Inl ex
      | (Inr data, w1) \<Rightarrow>
          if \<not> truthy data then Inr w1
          else
            let w2 = (case process_data (target_companies c) (clock e i) data of
                        None \<Rightarrow> w1
                      | Some df \<Rightarrow> w1\<lparr>store := snd (save_data (disk_at e i) (store w1) df)\<rparr>)
            in Inr (if i + 1 < iterations c then w2\<lparr>slept := slept w2 @ [wait_time c]\<rparr> else w2))"

fun run_from :: "environment \<Rightarrow> config \<Rightarrow> nat list \<Rightarrow> world \<Rightarrow> exn + world" where
  "run_from e c [] w = Inr w"
| "run_from e c (i # rest) w =
     (case iteration e c i w of Inl ex \<Rightarrow> Inl ex | Inr w' \<Rightarrow> run_from e c rest w')"

definition run :: "environment \<Rightarrow> config \<Rightarrow> world \<Rightarrow> exn + world" where
  "run e c w = run_from e c [0 ..< iterations c] w"

section \<open>The query service: \<open>BackEnd/src/main.py\<close>\<close>

subsection \<open>The table read at start\<close>

text \<open>
  A numeric cell of the CSV file is a number or missing (\<open>NaN\<close>). The rows carry the
  types the scraper writes and \<open>read_csv(parse_dates=["timestamp"])\<close> yields: a company
  name, numeric columns, and a time stamp on one linear time axis (microseconds since the
  epoch). \<open>snap_columns\<close> says which columns the file has; the value a row holds for a
  column that is not listed is never read.
\<close>

datatype num_cell = NaN | Val rat

record observation =
  companyName :: string
  last_value :: num_cell
  percentageChange :: num_cell
  negotiatedQuantity :: num_cell
  timestamp :: int

record snapshot =
  snap_columns :: "string list"
  snap_rows :: "observation list"

datatype csv_file = FileMissing | FileUnparseable | FileTable snapshot

subsection \<open>Strings\<close>

text \<open>\<open>str.strip()\<close> and \<open>str.upper()\<close>, on ASCII text.\<close>

definition is_space :: "char \<Rightarrow> bool" where
  "is_space c = (c \<in> set [CHR '' '', CHR 0x09, CHR 0x0A, CHR 0x0B, CHR 0x0C, CHR 0x0D,
                            CHR 0x1C, CHR 0x1D, CHR 0x1E, CHR 0x1F])"

definition to_upper :: "char \<Rightarrow> char" where
  "to_upper c =
     (case map_of (zip ''abcdefghijklmnopqrstuvwxyz'' ''ABCDEFGHIJKLMNOPQRSTUVWXYZ'') c of
        None \<Rightarrow> c
      | Some u \<Rightarrow> u)"

definition strip :: "string \<Rightarrow> string" where
  "strip s = rev (dropWhile is_space (rev (dropWhile is_space s)))"

definition upper :: "string \<Rightarrow> string" where
  "upper s = map to_upper s"

definition normalize_name :: "string \<Rightarrow> string" where
  "normalize_name s = upper (strip s)"

text \<open>Decimal digits of a status code, for \<open>str(e)\<close> of an \<open>HTTPException\<close>.\<close>

fun dec :: "nat \<Rightarrow> string" where
  "dec n = (if n < 10 then [''0123456789'' ! n]
            else dec (n div 10) @ [''0123456789'' ! (n mod 10)])"

fun str_exn :: "exn \<Rightarrow> string" where
  "str_exn (HTTPException status detail) = dec status @ '': '' @ detail"
| "str_exn AttributeError = ''AttributeError''"
| "str_exn TypeError = ''TypeError''"
| "str_exn KeyError = ''KeyError''"
| "str_exn ParserError = ''ParserError''"
| "str_exn ValueError = ''ValueError''"
| "str_exn FileNotFoundError = ''FileNotFoundError''"
| "str_exn RequestException = ''RequestException''"
| "str_exn RetryError = ''RetryError''"

subsection \<open>Loading\<close>

definition find_csv_file :: "csv_file \<Rightarrow> exn + csv_file" where
  "find_csv_file f = (case f of FileMissing \<Rightarrow> Inl FileNotFoundError | _ \<Rightarrow> Inr f)"

text \<open>\<open>df.sort_values("timestamp")\<close>; which of two rows with equal time stamps comes first
  is not used below.\<close>

definition sort_values :: "observation list \<Rightarrow> observation list" where
  "sort_values rs = sort_key timestamp rs"

definition sort_values_desc :: "observation list \<Rightarrow> observation list" where
  "sort_values_desc rs = rev (sort_key timestamp rs)"

definition required_columns :: "string list" where
  "required_columns = [''companyName'', ''last'', ''timestamp'']"

text \<open>The body of the \<open>try\<close> in \<open>CSVDataLoader._load_data\<close>.\<close>

definition load_data_try :: "csv_file \<Rightarrow> exn + snapshot" where
  "load_data_try f =
     (case f of
        FileMissing \<Rightarrow> Inl FileNotFoundError
      | FileUnparseable \<Rightarrow> Inl ParserError
      | FileTable df \<Rightarrow>
          if \<not> set required_columns \<subseteq> set (snap_columns df) then Inl ValueError
          else Inr (df\<lparr>snap_rows :=
                 sort_values (map (\<lambda>r. r\<lparr>companyName := upper (strip (companyName r))\<rparr>)
                                  (snap_rows df))\<rparr>))"

definition load_data :: "csv_file \<Rightarrow> exn + snapshot" where
  "load_data f =
     (case load_data_try f of
        Inl e \<Rightarrow> Inl (HTTPException 500
                  (''Error procesando el archivo CSV. Verifique el formato: '' @ str_exn e))
      | Inr df \<Rightarrow> Inr df)"

text \<open>
  The module-level \<open>try\<close>: \<open>CSV_PATH\<close> is bound when \<open>find_csv_file\<close> returned; any
  exception leaves \<open>data_loader\<close> the \<open>EmptyDataLoader\<close>.
\<close>

record app =
  CSV_PATH :: "string option"
  data_loader_df :: snapshot

definition EmptyDataLoader :: snapshot where
  "EmptyDataLoader = \<lparr>snap_columns = required_columns, snap_rows = []\<rparr>"

definition startup :: "string \<Rightarrow> csv_file \<Rightarrow> app" where
  "startup path f =
     (case find_csv_file f of
        Inl e \<Rightarrow> \<lparr>CSV_PATH = None, data_loader_df = EmptyDataLoader\<rparr>
      | Inr found \<Rightarrow>
          (case load_data found of
             Inl e \<Rightarrow> \<lparr>CSV_PATH = Some path, data_loader_df = EmptyDataLoader\<rparr>
           | Inr df \<Rightarrow> \<lparr>CSV_PATH = Some path, data_loader_df = df\<rparr>))"

subsection \<open>Endpoints\<close>

text \<open>
  An endpoint returns its body (HTTP 200) or raises an \<open>HTTPException\<close>. Message
  texts are written without their accents.
\<close>

definition empty_df :: "snapshot \<Rightarrow> bool" where
  "empty_df df = (snap_rows df = [] \<or> snap_columns df = [])"

record health =
  status :: string
  csv_path :: string
  data_loaded :: bool
  details :: string

definition health_check :: "app \<Rightarrow> exn + health" where
  "health_check a =
     Inr \<lparr>status = ''running'',
          csv_path = (case CSV_PATH a of Some p \<Rightarrow> p | None \<Rightarrow> ''No configurado''),
          data_loaded = (\<not> empty_df (data_loader_df a)),
          details = (if empty_df (data_loader_df a)
                     then ''El backend esta funcionando pero sin datos''
                     else ''Datos cargados correctamente'')\<rparr>"

definition get_companies :: "app \<Rightarrow> exn + string list" where
  "get_companies a =
     (if empty_df (data_loader_df a)
      then Inl (HTTPException 503
             ''Servicio no disponible. No se encontraron datos. Verifique el archivo CSV.'')
      else Inr (unique (map companyName (snap_rows (data_loader_df a)))))"

text \<open>
  \<open>Series.min()\<close> and \<open>max()\<close> of a time stamp column are \<open>NaT\<close> on an empty column.
  \<open>datetime.timestamp\<close> of \<open>NaT\<close> depends on the platform: it raises, or it returns some
  number; \<open>nat_epoch\<close> is that behaviour (\<open>None\<close>: it raises). On a proper time stamp the
  conversion is the position on the time axis.
\<close>

datatype tstamp = NaT | At int

definition series_min :: "int list \<Rightarrow> tstamp" where
  "series_min ts = (if ts = [] then NaT else At (Min (set ts)))"

definition series_max :: "int list \<Rightarrow> tstamp" where
  "series_max ts = (if ts = [] then NaT else At (Max (set ts)))"

definition datetime_timestamp :: "int option \<Rightarrow> tstamp \<Rightarrow> exn + int" where
  "datetime_timestamp nat_epoch t =
     (case t of
        At x \<Rightarrow> Inr x
      | NaT \<Rightarrow> (case nat_epoch of None \<Rightarrow> Inl ValueError | Some v \<Rightarrow> Inr v))"

definition timedelta_days :: "int \<Rightarrow> int" where
  "timedelta_days d = d * 86400000000"

text \<open>\<open>row.get(col, 0)\<close>: the cell, or 0 when the table has no such column.\<close>

definition row_get :: "snapshot \<Rightarrow> string \<Rightarrow> (observation \<Rightarrow> num_cell) \<Rightarrow> observation \<Rightarrow> num_cell" where
  "row_get df col sel r = (if col \<in> set (snap_columns df) then sel r else Val 0)"

text \<open>\<open>float(x) if pd.notna(x) else None\<close>.\<close>

definition float_or_None :: "num_cell \<Rightarrow> rat option" where
  "float_or_None x = (case x of NaN \<Rightarrow> None | Val v \<Rightarrow> Some v)"

record realtime_data =
  rt_price :: num_cell
  rt_variation :: num_cell
  rt_volume :: num_cell
  rt_timestamp :: int

record historical_item =
  h_price :: "rat option"
  h_variation :: "rat option"
  h_volume :: "rat option"
  h_timestamp :: int

record response =
  realtime :: realtime_data
  historical :: "historical_item list"
  data_points :: nat
  time_range_from :: int
  time_range_to :: int

definition to_item :: "snapshot \<Rightarrow> observation \<Rightarrow> historical_item" where
  "to_item df r =
     \<lparr>h_price = float_or_None (last_value r),
      h_variation = float_or_None (row_get df ''percentageChange'' percentageChange r),
      h_volume = float_or_None (row_get df ''negotiatedQuantity'' negotiatedQuantity r),
      h_timestamp = timestamp r\<rparr>"

text \<open>\<open>all(value is not None for value in item.values())\<close>.\<close>

definition all_not_None :: "historical_item \<Rightarrow> bool" where
  "all_not_None item = (h_price item \<noteq> None \<and> h_variation item \<noteq> None \<and> h_volume item \<noteq> None)"

text \<open>The body of the \<open>try\<close> in \<open>get_credicorp_data\<close>; \<open>now\<close> is \<open>datetime.now()\<close>.\<close>

definition credicorp_try :: "snapshot \<Rightarrow> int \<Rightarrow> int option \<Rightarrow> exn + response" where
  "credicorp_try df now nat_epoch =
     (let credicorp_data = filter (\<lambda>r. companyName r = ''CREDICORP LTD.'') (snap_rows df) in
      if credicorp_data = []
      then Inl (HTTPException 404 ''No se encontraron datos para CREDICORP LTD.'')
      else
        let latest = last credicorp_data;
            realtime_data =
              \<lparr>rt_price = last_value latest,
               rt_variation = row_get df ''percentageChange'' percentageChange latest,
               rt_volume = row_get df ''negotiatedQuantity'' negotiatedQuantity latest,
               rt_timestamp = timestamp latest\<rparr>;
            cutoff_date = now - timedelta_days 30;
            historical = sort_values_desc (filter (\<lambda>r. cutoff_date \<le> timestamp r) credicorp_data);
            historical_data = filter all_not_None (map (to_item df) historical)
        in case datetime_timestamp nat_epoch (series_min (map timestamp historical)) of
             Inl e \<Rightarrow> Inl e
           | Inr tfrom \<Rightarrow>
               (case datetime_timestamp nat_epoch (series_max (map timestamp historical)) of
                  Inl e \<Rightarrow> Inl e
                | Inr tto \<Rightarrow>
                    Inr \<lparr>realtime = realtime_data,
                         historical = historical_data,
                         data_points = length historical_data,
                         time_range_from = tfrom,
                         time_range_to = tto\<rparr>))"

text \<open>\<open>except Exception\<close>: whatever the body raised is raised again as a 500.\<close>

definition get_credicorp_data :: "app \<Rightarrow> int \<Rightarrow> int option \<Rightarrow> exn + response" where
  "get_credicorp_data a now nat_epoch =
     (case credicorp_try (data_loader_df a) now nat_epoch of
        Inl e \<Rightarrow> Inl (HTTPException 500 (''Error procesando datos de Credicorp: '' @ str_exn e))
      | Inr r \<Rightarrow> Inr r)"

definition status_code :: "exn + 'a \<Rightarrow> nat" where
  "status_code r = (case r of Inr body \<Rightarrow> 200 | Inl (HTTPException code detail) \<Rightarrow> code | Inl _ \<Rightarrow> 500)"

section \<open>Concrete inputs\<close>

text \<open>The inputs at which the theorems below are instantiated or the code is evaluated.\<close>

definition acme_row :: "rat \<Rightarrow> row" where
  "acme_row v = [(''companyName'', JStr ''ACME''), (''last'', JNum v), (''timestamp'', JStr ''T1'')]"

definition acme_frame :: "rat \<Rightarrow> dataframe" where
  "acme_frame v = \<lparr>columns = [''companyName'', ''last'', ''timestamp''], rows = [acme_row v]\<rparr>"

definition store_rows :: "store_file \<Rightarrow> row list" where
  "store_rows st = (case st of Csv df \<Rightarrow> rows df | _ \<Rightarrow> [])"

text \<open>A response that lists two securities of the same company.\<close>

definition two_listings :: json where
  "two_listings =
     JObj [(''content'', JArr
       [JObj [(''companyName'', JStr ''CREDICORP LTD.''), (''nemonico'', JStr ''BAP''),
              (''last'', JNum 150), (''buy'', JNum 149), (''sell'', JNum 151)],
        JObj [(''companyName'', JStr ''CREDICORP LTD.''), (''nemonico'', JStr ''BAPC1''),
              (''last'', JNum 10), (''buy'', JNull)]])]"

text \<open>The scenario of the specification, with the column names of the code.\<close>

definition acme_other :: json where
  "acme_other =
     JObj [(''content'', JArr
       [JObj [(''companyName'', JStr ''ACME''), (''last'', JNum (21 / 2))],
        JObj [(''companyName'', JStr ''OTHER''), (''last'', JNum 3)]])]"

definition world0 :: world where
  "world0 = \<lparr>store = NoFile, requests_made = 0, slept = []\<rparr>"

text \<open>An upstream that never answers.\<close>

definition upstream_down :: environment where
  "upstream_down =
     \<lparr>upstream = (\<lambda>n. NoResponse), clock = (\<lambda>i. ''T1''), disk_at = (\<lambda>i. WriteOk)\<rparr>"

definition two_listings_batch :: dataframe where
  "two_listings_batch =
     \<lparr>columns = [''companyName'', ''nemonico'', ''last'', ''buy'', ''sell'', ''timestamp''],
      rows =
        [[(''timestamp'', JStr ''T1''), (''companyName'', JStr ''CREDICORP LTD.''),
          (''nemonico'', JStr ''BAP''), (''last'', JNum 150), (''buy'', JNum 149),
          (''sell'', JNum 151)],
         [(''timestamp'', JStr ''T1''), (''sell'', JNum 0), (''buy'', JNum 0),
          (''companyName'', JStr ''CREDICORP LTD.''), (''nemonico'', JStr ''BAPC1''),
          (''last'', JNum 10)]]\<rparr>"

definition world1 :: world where
  "world1 = \<lparr>store = Csv (acme_frame 11), requests_made = 0, slept = []\<rparr>"

definition config0 :: config where
  "config0 = \<lparr>target_companies = [''CREDICORP LTD.''], iterations = 3, wait_time = 7200\<rparr>"

text \<open>A store table with all five columns the query service reads.\<close>

definition obs :: "string \<Rightarrow> num_cell \<Rightarrow> int \<Rightarrow> observation" where
  "obs name v t =
     \<lparr>companyName = name, last_value = v, percentageChange = Val 0,
      negotiatedQuantity = Val 0, timestamp = t\<rparr>"

definition table :: "observation list \<Rightarrow> csv_file" where
  "table rs =
     FileTable \<lparr>snap_columns = [''companyName'', ''last'', ''percentageChange'',
                                ''negotiatedQuantity'', ''timestamp''],
                snap_rows = rs\<rparr>"

text \<open>
  Three rows of \<open>CREDICORP LTD.\<close> and one of another company, on a time axis where
  \<open>now\<close> is day 100: one row is older than 30 days, one row of the last 30 days has no
  price.
\<close>

definition credicorp_rows :: "observation list" where
  "credicorp_rows =
     [obs ''CREDICORP LTD.'' (Val 7) (timedelta_days 95),
      obs ''Credicorp Ltd.'' (Val 5) (timedelta_days 50),
      obs ''ACME'' (Val 3) (timedelta_days 99),
      obs ''credicorp ltd. '' NaN (timedelta_days 90)]"

definition credicorp_app :: app where
  "credicorp_app = startup ''bvl_data.csv'' (table credicorp_rows)"

definition credicorp_response :: response where
  "credicorp_response =
     \<lparr>realtime = \<lparr>rt_price = Val 7, rt_variation = Val 0, rt_volume = Val 0,
                   rt_timestamp = timedelta_days 95\<rparr>,
      historical = [\<lparr>h_price = Some 7, h_variation = Some 0, h_volume = Some 0,
                      h_timestamp = timedelta_days 95\<rparr>],
      data_points = 1,
      time_range_from = timedelta_days 90,
      time_range_to = timedelta_days 95\<rparr>"

text \<open>Only rows older than 30 days.\<close>

definition old_app :: app where
  "old_app =
     startup ''bvl_data.csv'' (table [obs ''CREDICORP LTD.'' (Val 5) (timedelta_days 50)])"

section \<open>Properties of the merge\<close>

lemma drop_duplicates_last_set:
  "key ` set (drop_duplicates_last key xs) = key ` set xs"
  by (induction xs) auto

lemma drop_duplicates_last_subset:
  "set (drop_duplicates_last key xs) \<subseteq> set xs"
  by (induction xs) auto

lemma drop_duplicates_last_distinct:
  "distinct (map key (drop_duplicates_last key xs))"
proof (induction xs)
  case Nil
  show ?case by simp
next
  case (Cons x xs)
  have "key x \<notin> key ` set xs \<Longrightarrow> key x \<notin> key ` set (drop_duplicates_last key xs)"
    by (simp add: drop_duplicates_last_set)
  with Cons show ?case by simp
qed

lemma filter_key_empty:
  "k \<notin> key ` set xs \<Longrightarrow> filter (\<lambda>x. key x = k) xs = []"
  by (induction xs) auto

lemma drop_duplicates_last_filter:
  "k \<in> key ` set xs \<Longrightarrow>
   filter (\<lambda>x. key x = k) (drop_duplicates_last key xs) = [last (filter (\<lambda>x. key x = k) xs)]"
proof (induction xs)
  case Nil
  then show ?case by simp
next
  case (Cons x xs)
  show ?case
  proof (cases "k \<in> key ` set xs")
    case True
    with Cons.IH have ih:
      "filter (\<lambda>x. key x = k) (drop_duplicates_last key xs) = [last (filter (\<lambda>x. key x = k) xs)]"
      by simp
    from True have ne: "filter (\<lambda>x. key x = k) xs \<noteq> []"
      by (auto simp: filter_empty_conv)
    show ?thesis using ih ne True by auto
  next
    case False
    with Cons.prems have kx: "key x = k" by auto
    from False have e1: "filter (\<lambda>x. key x = k) xs = []"
      by (rule filter_key_empty)
    from False have "k \<notin> key ` set (drop_duplicates_last key xs)"
      by (simp add: drop_duplicates_last_set)
    then have e2: "filter (\<lambda>x. key x = k) (drop_duplicates_last key xs) = []"
      by (rule filter_key_empty)
    show ?thesis using kx e1 e2 False by simp
  qed
qed

lemma last_filter_append:
  "filter P ys \<noteq> [] \<Longrightarrow> last (filter P (xs @ ys)) = last (filter P ys)"
  by simp

lemma save_data_existing:
  assumes "''timestamp'' \<in> set (columns df)" and "''companyName'' \<in> set (columns df)"
  shows "save_data WriteOk (Csv existing) df =
         (True, Csv ((concat_frames existing df)
                       \<lparr>rows := drop_duplicates_last row_key (rows existing @ rows df)\<rparr>))"
  using assms by (simp add: save_data_def combined_frame_def concat_frames_def Let_def)

text \<open>
  Where the store file exists: merging a batch into it leaves at most one row for each
  pair (time stamp, company name); the keys of the merged store are those of the old store
  and of the batch; and for every key that occurs in the batch, the row kept is the batch's
  last row with that key, not a row of the old store.
\<close>

lemma save_data_existing_unique_last_write_wins:
  assumes "''timestamp'' \<in> set (columns df)" and "''companyName'' \<in> set (columns df)"
  shows "\<exists>m. save_data WriteOk (Csv existing) df = (True, Csv m)
           \<and> distinct (map row_key (rows m))
           \<and> row_key ` set (rows m) = row_key ` set (rows existing) \<union> row_key ` set (rows df)
           \<and> (\<forall>r \<in> set (rows df).
                 filter (\<lambda>x. row_key x = row_key r) (rows m)
                 = [last (filter (\<lambda>x. row_key x = row_key r) (rows df))])"
proof -
  let ?m = "(concat_frames existing df)
              \<lparr>rows := drop_duplicates_last row_key (rows existing @ rows df)\<rparr>"
  have saved: "save_data WriteOk (Csv existing) df = (True, Csv ?m)"
    using assms by (rule save_data_existing)
  have uniq: "distinct (map row_key (rows ?m))"
    by (simp add: drop_duplicates_last_distinct)
  have keys: "row_key ` set (rows ?m) = row_key ` set (rows existing) \<union> row_key ` set (rows df)"
    by (simp add: drop_duplicates_last_set image_Un)
  have wins: "filter (\<lambda>x. row_key x = row_key r) (rows ?m)
              = [last (filter (\<lambda>x. row_key x = row_key r) (rows df))]"
    if r: "r \<in> set (rows df)" for r
  proof -
    from r have ne: "filter (\<lambda>x. row_key x = row_key r) (rows df) \<noteq> []"
      by (auto simp: filter_empty_conv)
    from r have "row_key r \<in> row_key ` set (rows existing @ rows df)"
      by simp
    then have "filter (\<lambda>x. row_key x = row_key r)
                 (drop_duplicates_last row_key (rows existing @ rows df))
               = [last (filter (\<lambda>x. row_key x = row_key r) (rows existing @ rows df))]"
      by (rule drop_duplicates_last_filter)
    also have "last (filter (\<lambda>x. row_key x = row_key r) (rows existing @ rows df))
               = last (filter (\<lambda>x. row_key x = row_key r) (rows df))"
      using ne by (rule last_filter_append)
    finally show ?thesis by simp
  qed
  from saved uniq keys wins show ?thesis by blast
qed

text \<open>
  The scenario of the specification: the store holds \<open>(T1, ACME)\<close> with \<open>last = 10.5\<close>,
  the batch brings \<open>(T1, ACME)\<close> with \<open>last = 11\<close>.
\<close>

lemma save_data_existing_unique_last_write_wins_acme:
  "''timestamp'' \<in> set (columns (acme_frame 11))
   \<and> ''companyName'' \<in> set (columns (acme_frame 11))
   \<and> (\<exists>m. save_data WriteOk (Csv (acme_frame (21 / 2))) (acme_frame 11) = (True, Csv m)
           \<and> distinct (map row_key (rows m))
           \<and> row_key ` set (rows m)
               = row_key ` set (rows (acme_frame (21 / 2))) \<union> row_key ` set (rows (acme_frame 11))
           \<and> (\<forall>r \<in> set (rows (acme_frame 11)).
                 filter (\<lambda>x. row_key x = row_key r) (rows m)
                 = [last (filter (\<lambda>x. row_key x = row_key r) (rows (acme_frame 11)))]))"
proof -
  have c1: "''timestamp'' \<in> set (columns (acme_frame 11))"
    by (simp add: acme_frame_def)
  have c2: "''companyName'' \<in> set (columns (acme_frame 11))"
    by (simp add: acme_frame_def)
  from save_data_existing_unique_last_write_wins [OF c1 c2, of "acme_frame (21 / 2)"] c1 c2
  show ?thesis by blast
qed

lemma acme_scenario:
  "save_data WriteOk (Csv (acme_frame (21 / 2))) (acme_frame 11) = (True, Csv (acme_frame 11))"
  by (simp add: save_data_def combined_frame_def concat_frames_def acme_frame_def acme_row_def
      row_key_def cell_def)

text \<open>
  C1. Evaluation at the first write. With no store file yet, \<open>save_data\<close> takes the
  branch that writes the batch as it is. The batch \<open>process_data\<close> makes from a response
  that lists the same company twice has the two key columns and two rows with one pair
  (time stamp, company name); the store produced holds both rows, so the pair is not unique
  in it and the earlier row was not replaced by the later one.
\<close>

theorem save_data_first_write_keeps_duplicates:
  "process_data [''CREDICORP LTD.''] ''T1'' two_listings = Some two_listings_batch
   \<and> ''timestamp'' \<in> set (columns two_listings_batch)
   \<and> ''companyName'' \<in> set (columns two_listings_batch)
   \<and> save_data WriteOk NoFile two_listings_batch = (True, Csv two_listings_batch)
   \<and> map row_key (store_rows (snd (save_data WriteOk NoFile two_listings_batch)))
       = [(JStr ''T1'', JStr ''CREDICORP LTD.''), (JStr ''T1'', JStr ''CREDICORP LTD.'')]
   \<and> \<not> distinct (map row_key (store_rows (snd (save_data WriteOk NoFile two_listings_batch))))"
  by (simp add: process_data_def process_data_try_def two_listings_def two_listings_batch_def
      company_name_def in_targets_def DataFrame_def unique_def record_of_def stamp_def
      fillna0_def put_cell_def cell_def save_data_def combined_frame_def
      store_rows_def row_key_def)

section \<open>Merging the same batch twice\<close>

lemma drop_duplicates_last_append:
  "drop_duplicates_last key (xs @ ys)
   = filter (\<lambda>x. key x \<notin> key ` set ys) (drop_duplicates_last key xs) @ drop_duplicates_last key ys"
proof (induction xs)
  case Nil
  show ?case by simp
next
  case (Cons x xs)
  then show ?case by (auto simp: image_Un)
qed

lemma drop_duplicates_last_id:
  "distinct (map key xs) \<Longrightarrow> drop_duplicates_last key xs = xs"
  by (induction xs) auto

lemma drop_duplicates_last_absorb:
  "drop_duplicates_last key (drop_duplicates_last key (xs @ ys) @ ys)
   = drop_duplicates_last key (xs @ ys)"
proof -
  let ?out = "\<lambda>x. key x \<notin> key ` set ys"
  have none: "filter ?out (drop_duplicates_last key ys) = []"
    using drop_duplicates_last_subset [of key ys] by (auto simp: filter_empty_conv)
  have again: "drop_duplicates_last key (drop_duplicates_last key (xs @ ys))
               = drop_duplicates_last key (xs @ ys)"
    by (rule drop_duplicates_last_id) (rule drop_duplicates_last_distinct)
  have "drop_duplicates_last key (drop_duplicates_last key (xs @ ys) @ ys)
        = filter ?out (drop_duplicates_last key (drop_duplicates_last key (xs @ ys)))
          @ drop_duplicates_last key ys"
    using drop_duplicates_last_append [of key "drop_duplicates_last key (xs @ ys)" ys] .
  also have "\<dots> = filter ?out (drop_duplicates_last key (xs @ ys)) @ drop_duplicates_last key ys"
    by (simp only: again)
  also have "filter ?out (drop_duplicates_last key (xs @ ys))
             = filter ?out (drop_duplicates_last key xs)"
    by (simp add: drop_duplicates_last_append none)
  finally show ?thesis
    by (simp add: drop_duplicates_last_append)
qed

text \<open>On a store file that exists, a second merge of the same batch changes nothing.\<close>

lemma save_data_twice_existing:
  assumes "''timestamp'' \<in> set (columns df)" and "''companyName'' \<in> set (columns df)"
  shows "save_data WriteOk (snd (save_data WriteOk (Csv existing) df)) df
         = save_data WriteOk (Csv existing) df"
proof -
  let ?m = "(concat_frames existing df)
              \<lparr>rows := drop_duplicates_last row_key (rows existing @ rows df)\<rparr>"
  have one: "save_data WriteOk (Csv existing) df = (True, Csv ?m)"
    using assms by (rule save_data_existing)
  have cols: "filter (\<lambda>c. c \<notin> set (columns ?m)) (columns df) = []"
    by (auto simp: concat_frames_def filter_empty_conv)
  have two: "save_data WriteOk (Csv ?m) df
             = (True, Csv ((concat_frames ?m df)
                             \<lparr>rows := drop_duplicates_last row_key (rows ?m @ rows df)\<rparr>))"
    using assms by (rule save_data_existing)
  have "(concat_frames ?m df)\<lparr>rows := drop_duplicates_last row_key (rows ?m @ rows df)\<rparr> = ?m"
    using cols by (simp add: concat_frames_def drop_duplicates_last_absorb)
  with one two show ?thesis by simp
qed

text \<open>
  C2. Evaluation at the first write. With no store file yet, the batch made from a response
  that lists the same company twice is written as it is, two rows with one key; merging the
  same batch again then leaves one row. Merging twice gives a different count from merging
  once.
\<close>

theorem save_data_first_write_then_again:
  "process_data [''CREDICORP LTD.''] ''T1'' two_listings = Some two_listings_batch
   \<and> length (store_rows (snd (save_data WriteOk NoFile two_listings_batch))) = 2
   \<and> length (store_rows (snd (save_data WriteOk
               (snd (save_data WriteOk NoFile two_listings_batch)) two_listings_batch))) = 1"
  by (simp add: process_data_def process_data_try_def two_listings_def two_listings_batch_def
      company_name_def in_targets_def DataFrame_def unique_def record_of_def stamp_def
      fillna0_def put_cell_def cell_def save_data_def combined_frame_def concat_frames_def
      store_rows_def row_key_def)

section \<open>Attempts made by \<open>fetch_data\<close>\<close>

text \<open>The decorated body never raises, so the decorator returns after the first call.\<close>

lemma fetch_data_body_returns:
  "\<exists>j. fetch_data_body e w = (Inr j, w\<lparr>requests_made := Suc (requests_made w)\<rparr>)"
  by (auto simp: fetch_data_body_def fetch_data_try_def Let_def
      split: http_outcome.splits option.splits)

lemma fetch_data_one_request:
  "\<exists>j. fetch_data e w = (Inr j, w\<lparr>requests_made := Suc (requests_made w)\<rparr>)"
proof -
  from fetch_data_body_returns obtain j where
    "fetch_data_body e w = (Inr j, w\<lparr>requests_made := Suc (requests_made w)\<rparr>)"
    by blast
  then have "fetch_data e w = (Inr j, w\<lparr>requests_made := Suc (requests_made w)\<rparr>)"
    unfolding fetch_data_def by (subst retry_call.simps) simp
  then show ?thesis ..
qed

text \<open>
  What the decorator does around a body that does raise: three requests, waits of 1 and 2
  seconds between them, then \<open>RetryError\<close>.
\<close>

lemma retry_call_three_attempts:
  "retry_call 3 (wait_exponential 1) (fetch_data_try upstream_down) 1 world0
   = (Inl RetryError, \<lparr>store = NoFile, requests_made = 3, slept = [1, 2]\<rparr>)"
proof -
  have step: "fetch_data_try upstream_down w = (Inl RequestException, w\<lparr>requests_made := Suc (requests_made w)\<rparr>)"
    for w
    by (simp add: fetch_data_try_def upstream_down_def)
  show ?thesis
    unfolding world0_def
    by (subst retry_call.simps, simp add: step wait_exponential_def)+
qed

text \<open>
  C3. Evaluation against an upstream that never answers: \<open>fetch_data\<close> returns \<open>None\<close>
  after one request and without any wait.
\<close>

theorem fetch_data_upstream_down:
  "fetch_data upstream_down world0
   = (Inr JNull, \<lparr>store = NoFile, requests_made = 1, slept = []\<rparr>)"
  unfolding fetch_data_def
  by (subst retry_call.simps)
     (simp add: fetch_data_body_def fetch_data_try_def upstream_down_def world0_def)

section \<open>The unknown ticker\<close>

lemma get_credicorp_data_no_rows:
  assumes "\<forall>r \<in> set (snap_rows (data_loader_df a)). companyName r \<noteq> ''CREDICORP LTD.''"
  shows "status_code (get_credicorp_data a now nat_epoch) = 500"
proof -
  from assms have "filter (\<lambda>r. companyName r = ''CREDICORP LTD.'') (snap_rows (data_loader_df a)) = []"
    by (auto simp: filter_empty_conv)
  then show ?thesis
    by (simp add: get_credicorp_data_def credicorp_try_def status_code_def)
qed

text \<open>
  C6. Evaluation on a snapshot that holds one row, of another company: the body raises
  the 404, the handler around it catches that exception like any other, and the request
  is answered with a 500 whose detail quotes the 404.
\<close>

theorem get_credicorp_data_unknown_ticker:
  "credicorp_try (data_loader_df (startup ''bvl_data.csv'' (table [obs ''ACME'' (Val 3) 100]))) now nat_epoch
     = Inl (HTTPException 404 ''No se encontraron datos para CREDICORP LTD.'')
   \<and> get_credicorp_data (startup ''bvl_data.csv'' (table [obs ''ACME'' (Val 3) 100])) now nat_epoch
     = Inl (HTTPException 500
         ''Error procesando datos de Credicorp: 404: No se encontraron datos para CREDICORP LTD.'')
   \<and> status_code (get_credicorp_data (startup ''bvl_data.csv'' (table [obs ''ACME'' (Val 3) 100]))
         now nat_epoch) = 500"
  by (simp add: get_credicorp_data_def credicorp_try_def status_code_def startup_def
      find_csv_file_def load_data_def load_data_try_def table_def obs_def required_columns_def
      sort_values_def strip_def upper_def to_upper_def is_space_def)

section \<open>Starting without data\<close>

lemma startup_without_data:
  assumes "f = FileMissing \<or> f = FileUnparseable \<or> (\<exists>df. f = FileTable df \<and> snap_rows df = [])"
  shows "empty_df (data_loader_df (startup p f))"
proof -
  consider "f = FileMissing" | "f = FileUnparseable"
    | df where "f = FileTable df" and "snap_rows df = []"
    using assms by blast
  then show ?thesis
  proof cases
    case 1
    then show ?thesis
      by (simp add: startup_def find_csv_file_def EmptyDataLoader_def empty_df_def)
  next
    case 2
    then show ?thesis
      by (simp add: startup_def find_csv_file_def load_data_def load_data_try_def
          EmptyDataLoader_def empty_df_def)
  next
    case 3
    then show ?thesis
      by (simp add: startup_def find_csv_file_def load_data_def load_data_try_def
          EmptyDataLoader_def empty_df_def sort_values_def)
  qed
qed

text \<open>
  C7. When the store file is missing, cannot be parsed (an empty file cannot), or holds
  no rows, the service starts with a table without rows: \<open>/health\<close> returns its body
  (HTTP 200) with \<open>data_loaded\<close> false, and \<open>/api/companies\<close> raises the 503.
\<close>

theorem startup_degraded_mode:
  assumes "f = FileMissing \<or> f = FileUnparseable \<or> (\<exists>df. f = FileTable df \<and> snap_rows df = [])"
  shows "(\<exists>h. health_check (startup p f) = Inr h \<and> data_loaded h = False)
         \<and> status_code (health_check (startup p f)) = 200
         \<and> (\<exists>detail. get_companies (startup p f) = Inl (HTTPException 503 detail))
         \<and> status_code (get_companies (startup p f)) = 503"
proof -
  from assms have "empty_df (data_loader_df (startup p f))"
    by (rule startup_without_data)
  then show ?thesis
    by (simp add: health_check_def get_companies_def status_code_def)
qed

theorem startup_degraded_mode_witness:
  "(FileMissing = FileMissing \<or> FileMissing = FileUnparseable
      \<or> (\<exists>df. FileMissing = FileTable df \<and> snap_rows df = []))
   \<and> (\<exists>h. health_check (startup ''bvl_data.csv'' FileMissing) = Inr h \<and> data_loaded h = False)
   \<and> status_code (health_check (startup ''bvl_data.csv'' FileMissing)) = 200
   \<and> (\<exists>detail. get_companies (startup ''bvl_data.csv'' FileMissing) = Inl (HTTPException 503 detail))
   \<and> status_code (get_companies (startup ''bvl_data.csv'' FileMissing)) = 503"
proof -
  have h: "FileMissing = FileMissing \<or> FileMissing = FileUnparseable
           \<or> (\<exists>df. FileMissing = FileTable df \<and> snap_rows df = [])"
    by simp
  from startup_degraded_mode [OF h, of "''bvl_data.csv''"] h show ?thesis
    by blast
qed

section \<open>What \<open>process_data\<close> returns\<close>

text \<open>
  A batch that \<open>process_data\<close> returns holds one row for each record of \<open>content\<close>
  whose \<open>companyName\<close> is a target, in order, stamped with \<open>now\<close>, and with no
  missing \<open>buy\<close> or \<open>sell\<close>; it has the two key columns \<open>save_data\<close> needs.
\<close>

lemma filter_companies_Inr:
  "filter_companies targets cs = Inr kept
   \<Longrightarrow> kept = filter (\<lambda>c. \<exists>s \<in> set targets. company_name c = Inr (JStr s)) cs"
proof (induction cs arbitrary: kept)
  case Nil
  then show ?case by simp
next
  case (Cons c cs)
  then show ?case
    by (auto simp: in_targets_def split: sum.splits json.splits if_splits)
qed

lemma company_name_JStr:
  "company_name c = Inr (JStr s) \<Longrightarrow> cell (record_of c) ''companyName'' = JStr s
     \<and> ''companyName'' \<in> fst ` set (record_of c)"
  by (auto simp: company_name_def record_of_def cell_def
      split: json.splits option.splits dest: map_of_SomeD intro: rev_image_eqI)

lemma cell_put_cell_same: "cell (put_cell c v r) c = v"
  by (simp add: cell_def put_cell_def)

lemma map_of_filter_other:
  "c' \<noteq> c \<Longrightarrow> map_of (filter (\<lambda>kv. fst kv \<noteq> c) r) c' = map_of r c'"
  by (induction r) auto

lemma cell_put_cell_other: "c' \<noteq> c \<Longrightarrow> cell (put_cell c v r) c' = cell r c'"
  by (simp add: cell_def put_cell_def map_of_filter_other)

lemma cell_fillna0_same: "cell (fillna0 c r) c \<noteq> JNull"
  by (simp add: fillna0_def cell_put_cell_same)

lemma cell_fillna0_other: "c' \<noteq> c \<Longrightarrow> cell (fillna0 c r) c' = cell r c'"
  by (simp add: fillna0_def cell_put_cell_other)

lemma set_unique: "set (unique xs) = set xs"
  by (simp add: unique_def)

lemma process_data_Some:
  assumes "process_data targets now data = Some df"
  shows "\<exists>kv cs. data = JObj kv \<and> map_of kv ''content'' = Some (JArr cs)
           \<and> rows df = map (\<lambda>c. put_cell ''timestamp'' (JStr now)
                                   (fillna0 ''sell'' (fillna0 ''buy'' (record_of c))))
                            (filter (\<lambda>c. \<exists>s \<in> set targets. company_name c = Inr (JStr s)) cs)
           \<and> rows df \<noteq> []
           \<and> ''timestamp'' \<in> set (columns df)
           \<and> ''companyName'' \<in> set (columns df)"
proof -
  from assms obtain kv where d: "data = JObj kv"
    by (cases data) (simp_all add: process_data_def process_data_try_def)
  let ?cl = "case map_of kv ''content'' of None \<Rightarrow> JArr [] | Some v \<Rightarrow> v"
  from assms d obtain cs where cl: "?cl = JArr cs"
    by (cases ?cl) (simp_all add: process_data_def process_data_try_def)
  from assms d cl obtain kept where k: "filter_companies targets cs = Inr kept"
    by (cases "filter_companies targets cs") (simp_all add: process_data_def process_data_try_def)
  from assms d cl k have ne: "kept \<noteq> []"
    by (auto simp: process_data_def process_data_try_def split: if_splits)
  from filter_companies_Inr [OF k] have kept:
    "kept = filter (\<lambda>c. \<exists>s \<in> set targets. company_name c = Inr (JStr s)) cs" .
  with ne have "cs \<noteq> []" by auto
  with cl have content: "map_of kv ''content'' = Some (JArr cs)"
    by (auto split: option.splits)
  let ?f = "DataFrame (map record_of kept)"
  from assms d cl k ne have df:
    "df = stamp now (?f\<lparr>rows := map (fillna0 ''sell'' \<circ> fillna0 ''buy'') (rows ?f)\<rparr>)"
    by (auto simp: process_data_def process_data_try_def Let_def split: if_splits)
  have rws: "rows df = map (\<lambda>c. put_cell ''timestamp'' (JStr now)
                                   (fillna0 ''sell'' (fillna0 ''buy'' (record_of c)))) kept"
    by (simp add: df stamp_def DataFrame_def comp_def)
  have ts: "''timestamp'' \<in> set (columns df)"
    by (auto simp: df stamp_def)
  from ne obtain c where c: "c \<in> set kept" by (cases kept) auto
  with kept obtain s where "company_name c = Inr (JStr s)" by auto
  from company_name_JStr [OF this] have "''companyName'' \<in> fst ` set (record_of c)" by simp
  with c have "''companyName'' \<in> set (columns ?f)"
    by (auto simp: DataFrame_def set_unique)
  then have cn: "''companyName'' \<in> set (columns df)"
    by (simp add: df stamp_def)
  from d content rws ne ts cn kept show ?thesis
    by auto
qed

lemma process_data_rows:
  assumes "process_data targets now data = Some df" and "r \<in> set (rows df)"
  shows "cell r ''timestamp'' = JStr now \<and> cell r ''buy'' \<noteq> JNull \<and> cell r ''sell'' \<noteq> JNull
         \<and> (\<exists>s \<in> set targets. cell r ''companyName'' = JStr s)"
proof -
  from process_data_Some [OF assms(1)] assms(2) obtain c s where
    r: "r = put_cell ''timestamp'' (JStr now) (fillna0 ''sell'' (fillna0 ''buy'' (record_of c)))"
    and s: "s \<in> set targets" and cn: "company_name c = Inr (JStr s)"
    by auto
  have "cell r ''companyName'' = JStr s"
    using company_name_JStr [OF cn] by (simp add: r cell_put_cell_other cell_fillna0_other)
  moreover have "cell r ''buy'' \<noteq> JNull"
    by (simp add: r cell_put_cell_other cell_fillna0_other cell_fillna0_same)
  moreover have "cell r ''sell'' \<noteq> JNull"
    by (simp add: r cell_put_cell_other cell_fillna0_same)
  moreover have "cell r ''timestamp'' = JStr now"
    by (simp add: r cell_put_cell_same)
  ultimately show ?thesis using s by blast
qed

subsection \<open>Records without \<open>buy\<close> and \<open>sell\<close>\<close>

text \<open>
  C8. Evaluation at the scenario of the specification: target set \<open>{ACME}\<close>, records for
  \<open>ACME\<close> and \<open>OTHER\<close>, neither with a \<open>buy\<close> or \<open>sell\<close> key. Selecting the two columns
  raises, and \<open>process_data\<close> returns \<open>None\<close>: no batch.
\<close>

theorem process_data_acme_other:
  "process_data_try [''ACME''] ''T1'' acme_other = Inl KeyError
   \<and> process_data [''ACME''] ''T1'' acme_other = None"
  by (simp add: process_data_def process_data_try_def acme_other_def company_name_def
      in_targets_def DataFrame_def unique_def record_of_def)

section \<open>The loaded snapshot\<close>

lemma to_upper_idem: "to_upper (to_upper c) = to_upper c"
  by (simp add: to_upper_def)

lemma is_space_to_upper: "is_space (to_upper c) = is_space c"
  by (simp add: to_upper_def is_space_def)

lemma dropWhile_snoc_keeps:
  "\<not> P x \<Longrightarrow> \<exists>zs. dropWhile P (ys @ [x]) = zs @ [x]"
  by (induction ys) auto

lemma strip_no_space_ends:
  "dropWhile is_space (strip s) = strip s \<and> dropWhile is_space (rev (strip s)) = rev (strip s)"
proof (cases "dropWhile is_space s")
  case Nil
  show ?thesis by (simp add: strip_def Nil)
next
  case (Cons x t)
  then have nx: "\<not> is_space x"
    using hd_dropWhile [of is_space s] by auto
  from dropWhile_snoc_keeps [of is_space x "rev t"] nx obtain zs where
    zs: "dropWhile is_space (rev t @ [x]) = zs @ [x]" by blast
  have "strip s = x # rev zs"
    using Cons zs by (simp add: strip_def)
  moreover have "dropWhile is_space (rev (strip s)) = rev (strip s)"
    by (simp add: strip_def)
  ultimately show ?thesis using nx by simp
qed

lemma strip_idem: "strip (strip s) = strip s"
  using strip_no_space_ends [of s] by (simp add: strip_def [of "strip s"])

lemma strip_upper: "strip (upper s) = upper (strip s)"
  by (simp add: strip_def upper_def dropWhile_map rev_map comp_def is_space_to_upper)

lemma upper_idem: "upper (upper s) = upper s"
  by (simp add: upper_def to_upper_idem)

lemma normalize_name_idem: "normalize_name (normalize_name s) = normalize_name s"
  by (simp add: normalize_name_def strip_upper strip_idem upper_idem)

lemma load_data_table:
  assumes "load_data f = Inr df"
  shows "\<exists>tbl. f = FileTable tbl
           \<and> df = tbl\<lparr>snap_rows :=
                  sort_values (map (\<lambda>r. r\<lparr>companyName := normalize_name (companyName r)\<rparr>)
                                   (snap_rows tbl))\<rparr>"
  using assms
  by (cases f)
     (auto simp: load_data_def load_data_try_def normalize_name_def split: if_splits sum.splits)

text \<open>
  C9. A snapshot that \<open>_load_data\<close> returns holds the rows of the store file, each with
  its company name stripped and upper-cased, in ascending order of time stamp; stripping
  and upper-casing a name of the snapshot again gives the same name.
\<close>

theorem load_data_sorted_normalized:
  assumes "load_data f = Inr df"
  shows "sorted (map timestamp (snap_rows df))
         \<and> (\<forall>r \<in> set (snap_rows df).
                normalize_name (companyName r) = companyName r
                \<and> strip (companyName r) = companyName r
                \<and> upper (companyName r) = companyName r)
         \<and> (\<exists>tbl. f = FileTable tbl
                \<and> mset (snap_rows df)
                    = image_mset (\<lambda>r. r\<lparr>companyName := upper (strip (companyName r))\<rparr>)
                        (mset (snap_rows tbl)))"
proof -
  from load_data_table [OF assms] obtain tbl where
    f: "f = FileTable tbl" and
    df: "df = tbl\<lparr>snap_rows :=
               sort_values (map (\<lambda>r. r\<lparr>companyName := normalize_name (companyName r)\<rparr>)
                                (snap_rows tbl))\<rparr>"
    by blast
  have srt: "sorted (map timestamp (snap_rows df))"
    by (simp add: df sort_values_def)
  have nrm: "normalize_name (companyName r) = companyName r
             \<and> strip (companyName r) = companyName r
             \<and> upper (companyName r) = companyName r"
    if "r \<in> set (snap_rows df)" for r
  proof -
    from that have "r \<in> (\<lambda>r. r\<lparr>companyName := normalize_name (companyName r)\<rparr>) ` set (snap_rows tbl)"
      by (simp add: df sort_values_def)
    then obtain r0 where "r = r0\<lparr>companyName := normalize_name (companyName r0)\<rparr>"
      by blast
    then have "companyName r = normalize_name (companyName r0)"
      by simp
    then show ?thesis
      by (simp add: normalize_name_idem)
         (simp add: normalize_name_def strip_upper [symmetric] strip_idem upper_idem)
  qed
  have ms: "mset (snap_rows df)
            = image_mset (\<lambda>r. r\<lparr>companyName := upper (strip (companyName r))\<rparr>)
                (mset (snap_rows tbl))"
    by (simp add: df sort_values_def normalize_name_def)
  from srt nrm f ms show ?thesis by blast
qed

theorem load_data_sorted_normalized_witness:
  "load_data (table [obs '' credicorp ltd. '' (Val 5) 200, obs ''Acme'' NaN 100])
     = Inr \<lparr>snap_columns = [''companyName'', ''last'', ''percentageChange'',
                              ''negotiatedQuantity'', ''timestamp''],
              snap_rows = [obs ''ACME'' NaN 100, obs ''CREDICORP LTD.'' (Val 5) 200]\<rparr>
   \<and> sorted (map timestamp [obs ''ACME'' NaN 100, obs ''CREDICORP LTD.'' (Val 5) 200])
   \<and> normalize_name (companyName (obs ''ACME'' NaN 100)) = companyName (obs ''ACME'' NaN 100)
   \<and> normalize_name (companyName (obs ''CREDICORP LTD.'' (Val 5) 200))
       = companyName (obs ''CREDICORP LTD.'' (Val 5) 200)"
proof -
  have l: "load_data (table [obs '' credicorp ltd. '' (Val 5) 200, obs ''Acme'' NaN 100])
           = Inr \<lparr>snap_columns = [''companyName'', ''last'', ''percentageChange'',
                                    ''negotiatedQuantity'', ''timestamp''],
                    snap_rows = [obs ''ACME'' NaN 100, obs ''CREDICORP LTD.'' (Val 5) 200]\<rparr>"
    by (simp add: load_data_def load_data_try_def table_def obs_def required_columns_def
        sort_values_def strip_def upper_def to_upper_def is_space_def)
  from load_data_sorted_normalized [OF l] l show ?thesis
    by simp
qed



section \<open>Skipped iterations of \<open>run\<close>\<close>

lemma fetch_data_store:
  "store (snd (fetch_data e w)) = store w"
  using fetch_data_one_request [of e w] by auto

text \<open>
  C10. In an iteration whose fetch returned a value that counts as false, or whose
  \<open>process_data\<close> returned \<open>None\<close>, \<open>save_data\<close> is not called: whatever the disk would
  have done, the store after the iteration is the store before it, the iteration ends
  without an exception, and the loop goes on with the remaining iterations.
\<close>

theorem iteration_skipped_store_unchanged:
  assumes "fst (fetch_data e w) = Inr data"
    and "\<not> truthy data \<or> process_data (target_companies c) (clock e i) data = None"
  shows "\<exists>w'. iteration e c i w = Inr w' \<and> store w' = store w
              \<and> run_from e c (i # rest) w = run_from e c rest w'"
proof -
  obtain w1 where f: "fetch_data e w = (Inr data, w1)"
    using assms(1) by (cases "fetch_data e w") auto
  have st: "store w1 = store w"
    using fetch_data_store [of e w] f by simp
  show ?thesis
  proof (cases "truthy data")
    case False
    with f st show ?thesis
      by (simp add: iteration_def)
  next
    case True
    with assms(2) have none: "process_data (target_companies c) (clock e i) data = None"
      by simp
    from f True none st show ?thesis
      by (simp add: iteration_def)
  qed
qed

theorem iteration_skipped_store_unchanged_witness:
  "fst (fetch_data upstream_down world1) = Inr JNull
   \<and> \<not> truthy JNull
   \<and> (\<exists>w'. iteration upstream_down config0 0 world1 = Inr w' \<and> store w' = store world1
              \<and> run_from upstream_down config0 (0 # [1, 2]) world1
                  = run_from upstream_down config0 [1, 2] w')"
proof -
  have f: "fst (fetch_data upstream_down world1) = Inr JNull"
    unfolding fetch_data_def
    by (subst retry_call.simps)
       (simp add: fetch_data_body_def fetch_data_try_def upstream_down_def)
  have s: "\<not> truthy JNull
           \<or> process_data (target_companies config0) (clock upstream_down 0) JNull = None"
    by simp
  from iteration_skipped_store_unchanged [OF f s, of "[1, 2]"] f show ?thesis
    by simp
qed

section \<open>The view of one ticker\<close>

lemma credicorp_try_Inr:
  assumes "credicorp_try df now nat_epoch = Inr resp"
  defines "cd \<equiv> filter (\<lambda>r. companyName r = ''CREDICORP LTD.'') (snap_rows df)"
  defines "win \<equiv> filter (\<lambda>r. now - timedelta_days 30 \<le> timestamp r) cd"
  shows "cd \<noteq> []"
    and "rt_timestamp (realtime resp) = timestamp (last cd)"
    and "historical resp = filter all_not_None (map (to_item df) (sort_values_desc win))"
    and "data_points resp = length (historical resp)"
    and "datetime_timestamp nat_epoch (series_min (map timestamp (sort_values_desc win)))
         = Inr (time_range_from resp)"
    and "datetime_timestamp nat_epoch (series_max (map timestamp (sort_values_desc win)))
         = Inr (time_range_to resp)"
  using assms(1) unfolding cd_def win_def credicorp_try_def Let_def
  by (auto split: if_splits sum.splits)

lemma get_credicorp_data_Inr:
  "get_credicorp_data a now nat_epoch = Inr resp
   \<Longrightarrow> credicorp_try (data_loader_df a) now nat_epoch = Inr resp"
  by (simp add: get_credicorp_data_def split: sum.splits)


lemma h_timestamp_to_item: "h_timestamp (to_item df r) = timestamp r"
  by (simp add: to_item_def)




lemma set_sort_values_desc: "set (sort_values_desc rs) = set rs"
  by (simp add: sort_values_desc_def)


lemma credicorp_app_response:
  "get_credicorp_data (startup ''bvl_data.csv'' (table credicorp_rows)) (timedelta_days 100) None
   = Inr credicorp_response"
  by (simp add: get_credicorp_data_def credicorp_try_def startup_def find_csv_file_def
      load_data_def load_data_try_def table_def obs_def credicorp_rows_def
      credicorp_response_def required_columns_def sort_values_def sort_values_desc_def
      strip_def upper_def to_upper_def is_space_def timedelta_days_def to_item_def
      row_get_def float_or_None_def all_not_None_def series_min_def series_max_def
      datetime_timestamp_def)


section \<open>The metadata of the view\<close>

lemma sort_key_Nil_iff: "sort_key k rs = [] \<longleftrightarrow> rs = []"
  using length_sort [of k rs] by (simp only: length_0_conv [symmetric])

lemma series_min_sorted_desc:
  "rs \<noteq> [] \<Longrightarrow> series_min (map timestamp (sort_values_desc rs)) = At (Min (timestamp ` set rs))"
  by (simp add: series_min_def sort_values_desc_def sort_key_Nil_iff)

lemma series_max_sorted_desc:
  "rs \<noteq> [] \<Longrightarrow> series_max (map timestamp (sort_values_desc rs)) = At (Max (timestamp ` set rs))"
  by (simp add: series_max_def sort_values_desc_def sort_key_Nil_iff)

text \<open>
  C5, as amended. When \<open>get_credicorp_data\<close> answers, \<open>data_points\<close> is the length of the
  historical list (after the rows with a missing value were left out); and when some row
  of the ticker lies in the last 30 days, \<open>time_range.from\<close> and \<open>time_range.to\<close> are the
  least and the greatest time stamp among all rows of the ticker in the last 30 days,
  those left out of the historical list included, so that every entry of the list lies
  between them.
\<close>

theorem get_credicorp_data_metadata:
  assumes "get_credicorp_data a now nat_epoch = Inr resp"
  shows "data_points resp = length (historical resp)
         \<and> ((\<exists>r \<in> set (snap_rows (data_loader_df a)).
                companyName r = ''CREDICORP LTD.'' \<and> now - timedelta_days 30 \<le> timestamp r)
              \<longrightarrow>
              time_range_from resp
                = Min (timestamp ` {r \<in> set (snap_rows (data_loader_df a)).
                         companyName r = ''CREDICORP LTD.'' \<and> now - timedelta_days 30 \<le> timestamp r})
              \<and> time_range_to resp
                = Max (timestamp ` {r \<in> set (snap_rows (data_loader_df a)).
                         companyName r = ''CREDICORP LTD.'' \<and> now - timedelta_days 30 \<le> timestamp r})
              \<and> (\<forall>h \<in> set (historical resp).
                    time_range_from resp \<le> h_timestamp h \<and> h_timestamp h \<le> time_range_to resp))"
proof -
  let ?df = "data_loader_df a"
  let ?cd = "filter (\<lambda>r. companyName r = ''CREDICORP LTD.'') (snap_rows ?df)"
  let ?win = "filter (\<lambda>r. now - timedelta_days 30 \<le> timestamp r) ?cd"
  let ?W = "{r \<in> set (snap_rows ?df).
              companyName r = ''CREDICORP LTD.'' \<and> now - timedelta_days 30 \<le> timestamp r}"
  from assms have t: "credicorp_try ?df now nat_epoch = Inr resp"
    by (rule get_credicorp_data_Inr)
  note hist = credicorp_try_Inr(3) [OF t]
  note cnt = credicorp_try_Inr(4) [OF t]
  note lo = credicorp_try_Inr(5) [OF t]
  note hi = credicorp_try_Inr(6) [OF t]
  have W: "set ?win = ?W"
    by auto
  have range: "time_range_from resp = Min (timestamp ` ?W)
               \<and> time_range_to resp = Max (timestamp ` ?W)
               \<and> (\<forall>h \<in> set (historical resp).
                     time_range_from resp \<le> h_timestamp h \<and> h_timestamp h \<le> time_range_to resp)"
    if "\<exists>r \<in> set (snap_rows ?df).
          companyName r = ''CREDICORP LTD.'' \<and> now - timedelta_days 30 \<le> timestamp r"
  proof -
    from that have ne: "?win \<noteq> []"
      by (auto simp: filter_empty_conv)
    from lo have "datetime_timestamp nat_epoch (At (Min (timestamp ` set ?win)))
                  = Inr (time_range_from resp)"
      by (simp only: series_min_sorted_desc [OF ne])
    then have from_eq: "time_range_from resp = Min (timestamp ` set ?win)"
      by (simp add: datetime_timestamp_def)
    from hi have "datetime_timestamp nat_epoch (At (Max (timestamp ` set ?win)))
                  = Inr (time_range_to resp)"
      by (simp only: series_max_sorted_desc [OF ne])
    then have to_eq: "time_range_to resp = Max (timestamp ` set ?win)"
      by (simp add: datetime_timestamp_def)
    have between: "time_range_from resp \<le> h_timestamp h \<and> h_timestamp h \<le> time_range_to resp"
      if h: "h \<in> set (historical resp)" for h
    proof -
      from h have "h \<in> to_item ?df ` set ?win"
        unfolding hist by (simp add: set_sort_values_desc)
      then obtain r where r: "r \<in> set ?win" and hr: "h = to_item ?df r"
        by blast
      from r have "Min (timestamp ` set ?win) \<le> timestamp r"
        and "timestamp r \<le> Max (timestamp ` set ?win)"
        by simp_all
      with from_eq to_eq hr show ?thesis
        by (simp add: h_timestamp_to_item)
    qed
    from from_eq to_eq between show ?thesis
      unfolding W by blast
  qed
  from cnt range show ?thesis
    by blast
qed

theorem get_credicorp_data_metadata_witness:
  "get_credicorp_data credicorp_app (timedelta_days 100) None = Inr credicorp_response
   \<and> (\<exists>r \<in> set (snap_rows (data_loader_df credicorp_app)).
         companyName r = ''CREDICORP LTD.'' \<and> timedelta_days 100 - timedelta_days 30 \<le> timestamp r)
   \<and> data_points credicorp_response = length (historical credicorp_response)
   \<and> time_range_from credicorp_response
       = Min (timestamp ` {r \<in> set (snap_rows (data_loader_df credicorp_app)).
                companyName r = ''CREDICORP LTD.''
                \<and> timedelta_days 100 - timedelta_days 30 \<le> timestamp r})
   \<and> time_range_to credicorp_response
       = Max (timestamp ` {r \<in> set (snap_rows (data_loader_df credicorp_app)).
                companyName r = ''CREDICORP LTD.''
                \<and> timedelta_days 100 - timedelta_days 30 \<le> timestamp r})"
proof -
  have l: "get_credicorp_data credicorp_app (timedelta_days 100) None = Inr credicorp_response"
    unfolding credicorp_app_def by (rule credicorp_app_response)
  have w: "\<exists>r \<in> set (snap_rows (data_loader_df credicorp_app)).
             companyName r = ''CREDICORP LTD.'' \<and> timedelta_days 100 - timedelta_days 30 \<le> timestamp r"
    by (simp add: credicorp_app_def startup_def find_csv_file_def load_data_def
        load_data_try_def table_def obs_def credicorp_rows_def required_columns_def
        sort_values_def strip_def upper_def to_upper_def is_space_def timedelta_days_def)
  from get_credicorp_data_metadata [OF l] l w show ?thesis
    by blast
qed

text \<open>
  C5 as stated fails. On the rows of \<open>credicorp_rows\<close> the historical list is the one entry
  of day 95, while \<open>time_range.from\<close> is day 90, the time stamp of the row that was left out
  for its missing price. On a snapshot whose rows of the ticker are all older than 30 days
  the range is not reported as absent: where \<open>datetime.timestamp\<close> raises on \<open>NaT\<close> the
  request fails with a 500, where it returns a number that number is reported.
\<close>

theorem get_credicorp_data_metadata_counterexample:
  "get_credicorp_data credicorp_app (timedelta_days 100) None = Inr credicorp_response
   \<and> map h_timestamp (historical credicorp_response) = [timedelta_days 95]
   \<and> time_range_from credicorp_response = timedelta_days 90
   \<and> time_range_from credicorp_response
       \<noteq> Min (set (map h_timestamp (historical credicorp_response)))
   \<and> status_code (get_credicorp_data old_app (timedelta_days 100) None) = 500
   \<and> get_credicorp_data old_app (timedelta_days 100) (Some (- 62135596800000000))
       = Inr \<lparr>realtime = \<lparr>rt_price = Val 5, rt_variation = Val 0, rt_volume = Val 0,
                            rt_timestamp = timedelta_days 50\<rparr>,
               historical = [],
               data_points = 0,
               time_range_from = - 62135596800000000,
               time_range_to = - 62135596800000000\<rparr>"
proof -
  have a: "get_credicorp_data credicorp_app (timedelta_days 100) None = Inr credicorp_response"
    unfolding credicorp_app_def by (rule credicorp_app_response)
  have b: "map h_timestamp (historical credicorp_response) = [timedelta_days 95]"
    by (simp add: credicorp_response_def)
  have c: "time_range_from credicorp_response = timedelta_days 90"
    by (simp add: credicorp_response_def)
  have d: "time_range_from credicorp_response
           \<noteq> Min (set (map h_timestamp (historical credicorp_response)))"
    by (simp add: credicorp_response_def timedelta_days_def)
  have old: "data_loader_df old_app
             = \<lparr>snap_columns = [''companyName'', ''last'', ''percentageChange'',
                                 ''negotiatedQuantity'', ''timestamp''],
                 snap_rows = [obs ''CREDICORP LTD.'' (Val 5) (timedelta_days 50)]\<rparr>"
    by (simp add: old_app_def startup_def find_csv_file_def load_data_def load_data_try_def
        table_def obs_def required_columns_def sort_values_def strip_def upper_def
        to_upper_def is_space_def)
  have e: "status_code (get_credicorp_data old_app (timedelta_days 100) None) = 500"
    by (simp add: get_credicorp_data_def credicorp_try_def old obs_def timedelta_days_def
        sort_values_desc_def series_min_def series_max_def datetime_timestamp_def
        status_code_def)
  have f: "get_credicorp_data old_app (timedelta_days 100) (Some (- 62135596800000000))
           = Inr \<lparr>realtime = \<lparr>rt_price = Val 5, rt_variation = Val 0, rt_volume = Val 0,
                                rt_timestamp = timedelta_days 50\<rparr>,
                   historical = [],
                   data_points = 0,
                   time_range_from = - 62135596800000000,
                   time_range_to = - 62135596800000000\<rparr>"
    by (simp add: get_credicorp_data_def credicorp_try_def old obs_def timedelta_days_def
        sort_values_desc_def series_min_def series_max_def datetime_timestamp_def
        row_get_def)
  from a b c d e f show ?thesis
    by blast
qed

end
